theory Spec2Isabelle
  imports Complex_Main "HOL-Library.AList"
begin

section \<open>Python values, exceptions and text\<close>

text \<open>
  The drivers format Python values into SCPI command text and raise Python exceptions.
  Strings are ASCII byte lists. A float is a value of a type parameter \<open>'f\<close>: what
  \<^verbatim>\<open>str\<close> prints for a float and what \<^verbatim>\<open>float\<close> reads back are
  the interpreter's, so both are parameters (\<open>fstr\<close>, \<open>fparse\<close>) of the operations
  that use them.
\<close>

datatype 'f pyval =
    PInt int
  | PBool bool
  | PFloat 'f
  | PStr string
  | PNone

text \<open>
  An exception is its class and its arguments; the argument of the missing-equipment
  error is a set of names.
\<close>

datatype exc_arg = Msg string | Names "string set"

text \<open>
  Modelled from the spec: the exception classes \<^verbatim>\<open>ResourceConnectionError\<close> and
  \<^verbatim>\<open>UnsupportedResourceError\<close> of the package's \<^verbatim>\<open>errors\<close> module, which is
  not among the sources. They are the connection-failure and the unsupported-device error
  of the registry, each raised with the error it reports as its argument.
\<close>

datatype py_error =
    ValueError "exc_arg list"
  | TypeError string
  | AttributeError string
  | VisaIOError string
  | ConnectionError string
  | ModuleNotFoundError string
  | FileExistsError string
  | FileNotFoundError string
  | ResourceConnectionError py_error
  | UnsupportedResourceError py_error
  | OtherError string

definition upper_char :: "char \<Rightarrow> char" where
  "upper_char c =
     (let n = (of_char c :: nat) in if 97 \<le> n \<and> n \<le> 122 then char_of (n - 32) else c)"

definition upper :: "string \<Rightarrow> string" where
  "upper s = map upper_char s"

fun str_nat :: "nat \<Rightarrow> string" where
  "str_nat n =
     (if n < 10 then [char_of (48 + n)] else str_nat (n div 10) @ [char_of (48 + n mod 10)])"

declare str_nat.simps [simp del]

definition str_int :: "int \<Rightarrow> string" where
  "str_int i = (if i < 0 then CHR ''-'' # str_nat (nat (- i)) else str_nat (nat i))"

text \<open>\<^verbatim>\<open>isinstance(v, int)\<close> and \<^verbatim>\<open>isinstance(v, float)\<close>;
  \<^verbatim>\<open>bool\<close> is a subclass of \<^verbatim>\<open>int\<close>.\<close>

fun isinstance_int :: "'f pyval \<Rightarrow> bool" where
  "isinstance_int (PInt i) = True"
| "isinstance_int (PBool b) = True"
| "isinstance_int v = False"

fun isinstance_float :: "'f pyval \<Rightarrow> bool" where
  "isinstance_float (PFloat x) = True"
| "isinstance_float v = False"

text \<open>What an f-string prints for a value (\<^verbatim>\<open>format(v, '')\<close>, that is \<^verbatim>\<open>str(v)\<close>).\<close>

fun py_str :: "('f \<Rightarrow> string) \<Rightarrow> 'f pyval \<Rightarrow> string" where
  "py_str fstr (PInt i) = str_int i"
| "py_str fstr (PBool b) = (if b then ''True'' else ''False'')"
| "py_str fstr (PFloat x) = fstr x"
| "py_str fstr (PStr s) = s"
| "py_str fstr PNone = ''None''"

text \<open>\<^verbatim>\<open>v.upper()\<close>: only a string has the method.\<close>

fun py_upper :: "'f pyval \<Rightarrow> py_error + string" where
  "py_upper (PStr s) = Inr (upper s)"
| "py_upper v = Inl (AttributeError ''upper'')"


section \<open>Instrument sessions: equality\<close>

text \<open>
  A class object has a defining module and a name; \<^verbatim>\<open>Scpi_Instrument.__eq__\<close>
  reads only \<^verbatim>\<open>__class__.__name__\<close>. A session holds its address and the
  transport resource that \<^verbatim>\<open>rm.open_resource\<close> returned (here its handle number).
  The right operand of \<^verbatim>\<open>==\<close> is any object: an instance of
  \<^verbatim>\<open>Scpi_Instrument\<close> (or of a subclass) or something else.
\<close>

record py_class =
  class_module :: string
  class_name :: string

record scpi_instrument =
  instr_class :: py_class
  address :: string
  instrument :: nat

datatype pyobj = Instrument scpi_instrument | NotInstrument

definition scpi_eq :: "scpi_instrument \<Rightarrow> pyobj \<Rightarrow> bool" where
  "scpi_eq self obj =
     (case obj of
        NotInstrument \<Rightarrow> False
      | Instrument other \<Rightarrow>
          if \<not> (class_name (instr_class self) = class_name (instr_class other)) then False
          else if \<not> (address self = address other) then False
          else True)"

definition scpi_ne :: "scpi_instrument \<Rightarrow> pyobj \<Rightarrow> bool" where
  "scpi_ne self obj = (\<not> scpi_eq self obj)"


section \<open>Function generator driver (Keysight 33500B)\<close>

text \<open>
  The transport is the session object the driver writes to and queries. It is modelled by
  the log of the calls made on it, in order, as a mock transport records them, and it
  accepts every call; the instrument's answer to a query is a parameter \<open>reply\<close> of the
  log so far and the query text. Every operation returns its result (\<open>Inl\<close> the exception
  raised, \<open>Inr\<close> the value returned) and the log afterwards.
\<close>

datatype visa_call = Write string | Query string

type_synonym transport = "visa_call list"

datatype 'f edge_time = Edge 'f | Edges 'f 'f

definition valid_wave_types :: "string list" where
  "valid_wave_types =
     [''ARB'', ''DC'', ''NOIS'', ''PRBS'', ''PULSE'', ''RAMP'', ''SIN'', ''SQU'', ''TRI'']"

text \<open>\<^verbatim>\<open>float(response)\<close>: \<open>fparse\<close> is the interpreter's reader, \<open>None\<close> where it raises.\<close>

definition py_float :: "(string \<Rightarrow> 'f option) \<Rightarrow> string \<Rightarrow> py_error + 'f" where
  "py_float fparse response =
     (case fparse response of
        None \<Rightarrow> Inl (ValueError [Msg ''could not convert string to float''])
      | Some x \<Rightarrow> Inr x)"



definition set_wave_type ::
  "('f \<Rightarrow> string) \<Rightarrow> 'f pyval \<Rightarrow> int \<Rightarrow> transport \<Rightarrow> (py_error + unit) \<times> transport" where
  "set_wave_type fstr wave_type source tr =
     (Inr (), tr @ [Write (''SOUR'' @ str_int source @ '':FUNC '' @ py_str fstr wave_type)])"

definition set_pulse_edge_time ::
  "('f \<Rightarrow> string) \<Rightarrow> 'f pyval \<Rightarrow> 'f pyval \<Rightarrow> int \<Rightarrow> transport
     \<Rightarrow> (py_error + unit) \<times> transport" where
  "set_pulse_edge_time fstr time which source tr =
     (case py_upper which of
        Inl e \<Rightarrow> (Inl e, tr)
      | Inr w \<Rightarrow>
          if w = ''BOTH'' then
            (Inr (), tr @ [Write (''SOUR'' @ str_int source @ '':FUNC:PULSE:TRAN ''
                                   @ py_str fstr time)])
          else if w \<in> set [''RISE'', ''RISING'', ''R'', ''LEAD'', ''LEADING''] then
            (Inr (), tr @ [Write (''SOUR'' @ str_int source @ '':FUNC:PULSE:TRAN:LEAD ''
                                   @ py_str fstr time)])
          else if w \<in> set [''FALL'', ''FALLING'', ''F'', ''TRAIL'', ''TRAILING''] then
            (Inr (), tr @ [Write (''SOUR'' @ str_int source @ '':FUNC:PULSE:TRAN:TRA ''
                                   @ py_str fstr time)])
          else (Inr (), tr))"

definition get_pulse_edge_time ::
  "(string \<Rightarrow> 'f option) \<Rightarrow> (transport \<Rightarrow> string \<Rightarrow> string) \<Rightarrow> 'f pyval \<Rightarrow> int \<Rightarrow> transport
     \<Rightarrow> (py_error + 'f edge_time) \<times> transport" where
  \<open>get_pulse_edge_time fparse reply which source tr =
     (let cmd_str = ''SOUR'' @ str_int source @ '':FUNC:PULSE:TRAN'' in
      case py_upper which of
        Inl e \<Rightarrow> (Inl e, tr)
      | Inr w \<Rightarrow>
          if w = ''BOTH'' then
            (let r1 = reply tr (cmd_str @ ''LEAD?'');
                 tr1 = tr @ [Query (cmd_str @ ''LEAD?'')];
                 r2 = reply tr1 (cmd_str @ ''TRA?'');
                 tr2 = tr1 @ [Query (cmd_str @ ''TRA?'')]
             in case py_float fparse r1 of
                  Inl e \<Rightarrow> (Inl e, tr2)
                | Inr x1 \<Rightarrow>
                    (case py_float fparse r2 of
                       Inl e \<Rightarrow> (Inl e, tr2)
                     | Inr x2 \<Rightarrow> (Inr (Edges x1 x2), tr2)))
          else if w \<in> set [''RISE'', ''RISING'', ''R'', ''LEAD'', ''LEADING''] then
            (case py_float fparse (reply tr (cmd_str @ ''LEAD?'')) of
               Inl e \<Rightarrow> (Inl e, tr @ [Query (cmd_str @ ''LEAD?'')])
             | Inr x \<Rightarrow> (Inr (Edge x), tr @ [Query (cmd_str @ ''LEAD?'')]))
          else if w \<in> set [''FALL'', ''FALLING'', ''F'', ''TRAIL'', ''TRAILING''] then
            (case py_float fparse (reply tr (cmd_str @ ''TRA?'')) of
               Inl e \<Rightarrow> (Inl e, tr @ [Query (cmd_str @ ''TRA?'')])
             | Inr x \<Rightarrow> (Inr (Edge x), tr @ [Query (cmd_str @ ''TRA?'')]))
          else (Inl (ValueError [Msg ''Invalid option for "which" arg'']), tr))\<close>

definition set_pulse_hold :: "'f pyval \<Rightarrow> int \<Rightarrow> transport \<Rightarrow> (py_error + unit) \<times> transport" where
  "set_pulse_hold param source tr =
     (case py_upper param of
        Inl e \<Rightarrow> (Inl e, tr)
      | Inr p \<Rightarrow>
          if p \<notin> set [''DCYC'', ''WIDT''] then
            (Inl (ValueError [Msg (''Invalid param '' @ p @ '', must by 'DCYC'/'WIDT''
                                    @ [CHR 0x27])]), tr)
          else (Inr (), tr @ [Write (''SOUR'' @ str_int source @ '':FUNC:PULSE:HOLD '' @ p)]))"

definition set_burst_mode :: "'f pyval \<Rightarrow> int \<Rightarrow> transport \<Rightarrow> (py_error + unit) \<times> transport" where
  \<open>set_burst_mode mode source tr =
     (case py_upper mode of
        Inl e \<Rightarrow> (Inl e, tr)
      | Inr m \<Rightarrow>
          if m \<notin> set [''TRIG'', ''GAT''] then
            (Inl (ValueError [Msg ''Invalid mode, valid modes are "TRIG"/"GAT"'']), tr)
          else (Inr (), tr @ [Write (''SOUR'' @ str_int source @ '':BURS:MODE '' @ m)]))\<close>

definition set_burst_gate_polarity ::
  "'f pyval \<Rightarrow> int \<Rightarrow> transport \<Rightarrow> (py_error + unit) \<times> transport" where
  \<open>set_burst_gate_polarity polarity source tr =
     (case py_upper polarity of
        Inl e \<Rightarrow> (Inl e, tr)
      | Inr p \<Rightarrow>
          if p \<notin> set [''NORM'', ''INV''] then
            (Inl (ValueError [Msg ''Invalid mode, valid modes are "NORM"/"INV"'']), tr)
          else (Inr (), tr @ [Write (''SOUR'' @ str_int source @ '':BURS:GATE:POL '' @ p)]))\<close>

definition set_burst_ncycles ::
  "('f \<Rightarrow> string) \<Rightarrow> 'f pyval \<Rightarrow> int \<Rightarrow> transport \<Rightarrow> (py_error + unit) \<times> transport" where
  "set_burst_ncycles fstr ncycles source tr =
     (let str_options = [''INF'', ''MIN'', ''MAX''] in
      if isinstance_int ncycles then
        (Inr (), tr @ [Write (''SOUR'' @ str_int source @ '':BURS:NCYC '' @ py_str fstr ncycles)])
      else
        (case ncycles of
           PStr s \<Rightarrow>
             if upper s \<in> set str_options then
               (Inr (), tr @ [Write (''SOUR'' @ str_int source @ '':BURS:NCYC '' @ upper s)])
             else (Inl (ValueError [Msg ''invalid entry for ncycles'']), tr)
         | _ \<Rightarrow> (Inl (ValueError [Msg ''invalid entry for ncycles'']), tr)))"

definition set_burst_phase ::
  "('f \<Rightarrow> string) \<Rightarrow> 'f pyval \<Rightarrow> int \<Rightarrow> transport \<Rightarrow> (py_error + unit) \<times> transport" where
  "set_burst_phase fstr phase source tr =
     (let str_options = [''MIN'', ''MAX''] in
      if isinstance_float phase then
        (Inr (), tr @ [Write (''SOUR'' @ str_int source @ '':BURS:PHASE '' @ py_str fstr phase)])
      else
        (case phase of
           PStr s \<Rightarrow>
             if upper s \<in> set str_options then
               (Inr (), tr @ [Write (''SOUR'' @ str_int source @ '':BURS:PHASE '' @ upper s)])
             else (Inl (ValueError [Msg ''invalid entry for phase'']), tr)
         | _ \<Rightarrow> (Inl (ValueError [Msg ''invalid entry for phase'']), tr)))"

text \<open>
  A mock instrument that echoes the last written value: it answers every query with the
  argument (the text after the first space) of the most recent command written.
\<close>

fun last_written :: "transport \<Rightarrow> string option" where
  "last_written [] = None"
| "last_written (c # cs) =
     (case last_written cs of
        Some w \<Rightarrow> Some w
      | None \<Rightarrow> (case c of Write w \<Rightarrow> Some w | Query q \<Rightarrow> None))"

definition written_value :: "string \<Rightarrow> string" where
  "written_value cmd = drop 1 (dropWhile (\<lambda>c. c \<noteq> CHR '' '') cmd)"

definition echo_reply :: "transport \<Rightarrow> string \<Rightarrow> string" where
  "echo_reply tr q = (case last_written tr of None \<Rightarrow> [] | Some cmd \<Rightarrow> written_value cmd)"


section \<open>Equipment registry (EnvironmentSetup)\<close>

text \<open>
  A configuration is a Python dictionary, which keeps its keys in insertion order: an
  association list from device names to entries. An entry has the three required keys
  \<^verbatim>\<open>object\<close>, \<^verbatim>\<open>definition\<close>, \<^verbatim>\<open>address\<close> and the optional keys
  \<^verbatim>\<open>kwargs\<close> and \<^verbatim>\<open>init\<close>. Keyword arguments are values of a type
  parameter \<open>'kw\<close> and a connected device object is a value of a type parameter \<open>'inst\<close>.
\<close>

record 'kw entry =
  cfg_object :: string
  cfg_definition :: string
  cfg_address :: string
  cfg_kwargs :: "'kw option"
  cfg_init :: "(string \<times> 'kw) list option"

type_synonym 'kw configuration = "(string \<times> 'kw entry) list"

datatype 'kw device_setup = SetupDict "'kw configuration" | SetupPath string | SetupOther

text \<open>
  \<^verbatim>\<open>vars(self)\<close> is one namespace: \<^verbatim>\<open>__init__\<close> stores the configuration
  and the mask in it, and \<^verbatim>\<open>connect_to_devices\<close> stores every connected device in it
  under the device's name. A device object is taken to be a plain object, as the drivers
  of this package are: it is true in a condition and it cannot be called.
\<close>

datatype ('kw, 'inst) attr =
    Configuration "'kw configuration"
  | ObjectMask "string set"
  | Device 'inst

text \<open>
  What the registry does to the world: every instantiation of a driver class (the
  connection attempt) and every method it invokes on a device, in order, and the lines it
  prints.
\<close>

datatype 'kw call = Instantiate "'kw entry" | Invoke string 'kw

datatype report =
    Connected string
  | Initialzed
  | FailedConnection string
  | UnsupportedDevice string py_error
  | InitError string py_error

text \<open>
  The world outside the registry: \<open>load_json\<close> reads a configuration file;
  \<open>instantiate\<close> is \<^verbatim>\<open>import_module\<close>, \<^verbatim>\<open>getattr(Module, ...)\<close> and
  the call of the class on the address and the keyword arguments, giving the device or
  the exception one of the three raises; \<open>dir\<close> lists the attribute names of a device;
  \<open>getattr_callable\<close> is \<^verbatim>\<open>callable(getattr(instance, name))\<close>, which may raise
  since reading a property runs it; \<open>invoke\<close> calls a method with keyword arguments,
  giving the exception raised (if any) and the device afterwards.
\<close>

record ('kw, 'inst) world =
  load_json :: "string \<Rightarrow> py_error + 'kw configuration"
  instantiate :: "'kw entry \<Rightarrow> py_error + 'inst"
  dir :: "'inst \<Rightarrow> string list"
  getattr_callable :: "'inst \<Rightarrow> string \<Rightarrow> py_error + bool"
  invoke :: "'inst \<Rightarrow> string \<Rightarrow> 'kw \<Rightarrow> py_error option \<times> 'inst"

record ('kw, 'inst) registry =
  attrs :: "string \<rightharpoonup> ('kw, 'inst) attr"
  stdout :: "report list"
  calls :: "'kw call list"

text \<open>The handle bound under a name, if any.\<close>

definition handle :: "('kw, 'inst) registry \<Rightarrow> string \<Rightarrow> 'inst option" where
  "handle self name = (case attrs self name of Some (Device d) \<Rightarrow> Some d | _ \<Rightarrow> None)"

definition read_configuration ::
  "('kw, 'inst) world \<Rightarrow> 'kw device_setup \<Rightarrow> ('kw, 'inst) registry
     \<Rightarrow> py_error option \<times> ('kw, 'inst) registry" where
  \<open>read_configuration w device_setup self =
     (case device_setup of
        SetupOther \<Rightarrow>
          (Some (ValueError [Msg (''Unsupported type for arguement "equipment_setup"''
                                   @ '' should a str/Path object to a JSON file or a''
                                   @ '' dictionary'')]), self)
      | SetupDict d \<Rightarrow> (None, self\<lparr>attrs := (attrs self)(''configuration'' \<mapsto> Configuration d)\<rparr>)
      | SetupPath p \<Rightarrow>
          (case load_json w p of
             Inl e \<Rightarrow> (Some e, self)
           | Inr d \<Rightarrow>
               (None, self\<lparr>attrs := (attrs self)(''configuration'' \<mapsto> Configuration d)\<rparr>)))\<close>

text \<open>
  \<^verbatim>\<open>if self.object_mask:\<close> reads whatever the namespace holds under that name. (The
  name is bound from \<^verbatim>\<open>__init__\<close> on.)
\<close>

definition object_mask_truthy :: "('kw, 'inst) registry \<Rightarrow> bool" where
  "object_mask_truthy self =
     (case attrs self ''object_mask'' of
        Some (ObjectMask m) \<Rightarrow> m \<noteq> {}
      | Some (Configuration c) \<Rightarrow> c \<noteq> []
      | Some (Device d) \<Rightarrow> True
      | None \<Rightarrow> False)"

definition check_mask :: "('kw, 'inst) registry \<Rightarrow> py_error option" where
  "check_mask self =
     (case attrs self ''object_mask'' of
        Some (ObjectMask object_mask) \<Rightarrow>
          if object_mask = {} then None
          else
            (case attrs self ''configuration'' of
               Some (Configuration configuration) \<Rightarrow>
                 (let common = set (map fst configuration) \<inter> object_mask in
                  if common \<noteq> object_mask then
                    Some (ValueError [Msg ''Required Equipment Missing'',
                                      Names (object_mask - common)])
                  else None)
             | _ \<Rightarrow> Some (AttributeError ''keys''))
      | _ \<Rightarrow> Some (AttributeError ''object_mask''))"

fun has_dunder :: "string \<Rightarrow> bool" where
  "has_dunder (a # b # r) = ((a = CHR ''_'' \<and> b = CHR ''_'') \<or> has_dunder (b # r))"
| "has_dunder r = False"

fun callable_methods :: "('kw, 'inst) world \<Rightarrow> 'inst \<Rightarrow> string list \<Rightarrow> py_error + string list" where
  "callable_methods w instance [] = Inr []"
| "callable_methods w instance (method # methods) =
     (case getattr_callable w instance method of
        Inl e \<Rightarrow> Inl e
      | Inr c \<Rightarrow>
          (case callable_methods w instance methods of
             Inl e \<Rightarrow> Inl e
           | Inr cmds \<Rightarrow> Inr (if c \<and> \<not> has_dunder method then method # cmds else cmds)))"

definition get_callable_methods :: "('kw, 'inst) world \<Rightarrow> 'inst \<Rightarrow> py_error + string list" where
  "get_callable_methods w instance = callable_methods w instance (dir w instance)"

text \<open>The loop of \<^verbatim>\<open>initiaize_device\<close> over the sequence.\<close>

fun init_loop ::
  "('kw, 'inst) world \<Rightarrow> string list \<Rightarrow> (string \<times> 'kw) list \<Rightarrow> 'inst \<Rightarrow> ('kw, 'inst) registry
     \<Rightarrow> py_error option \<times> 'inst \<times> ('kw, 'inst) registry" where
  "init_loop w valid_cmds [] instance self = (None, instance, self)"
| "init_loop w valid_cmds ((method_name, method_kwargs) # sequence) instance self =
     (if method_name \<in> set valid_cmds then
        (case invoke w instance method_name method_kwargs of
           (None, instance') \<Rightarrow>
             init_loop w valid_cmds sequence instance'
               (self\<lparr>calls := calls self @ [Invoke method_name method_kwargs]\<rparr>)
         | (Some error, instance') \<Rightarrow>
             (case error of
                TypeError msg \<Rightarrow>
                  init_loop w valid_cmds sequence instance'
                    (self\<lparr>calls := calls self @ [Invoke method_name method_kwargs],
                          stdout := stdout self @ [InitError method_name error]\<rparr>)
              | _ \<Rightarrow>
                  (Some error, instance',
                   self\<lparr>calls := calls self @ [Invoke method_name method_kwargs]\<rparr>)))
      else init_loop w valid_cmds sequence instance self)"

definition initiaize_device ::
  "('kw, 'inst) world \<Rightarrow> 'inst \<Rightarrow> (string \<times> 'kw) list \<Rightarrow> ('kw, 'inst) registry
     \<Rightarrow> py_error option \<times> 'inst \<times> ('kw, 'inst) registry" where
  "initiaize_device w instance sequence self =
     (case attrs self ''_get_callable_methods'' of
        Some shadow \<Rightarrow> (Some (TypeError ''object is not callable''), instance, self)
      | None \<Rightarrow>
          (case get_callable_methods w instance of
             Inl e \<Rightarrow> (Some e, instance, self)
           | Inr valid_cmds \<Rightarrow> init_loop w valid_cmds sequence instance self))"

fun is_transport_error :: "py_error \<Rightarrow> bool" where
  "is_transport_error (VisaIOError m) = True"
| "is_transport_error (ConnectionError m) = True"
| "is_transport_error e = False"

fun is_resolution_error :: "py_error \<Rightarrow> bool" where
  "is_resolution_error (ModuleNotFoundError m) = True"
| "is_resolution_error (AttributeError m) = True"
| "is_resolution_error e = False"

definition say :: "bool \<Rightarrow> report \<Rightarrow> ('kw, 'inst) registry \<Rightarrow> ('kw, 'inst) registry" where
  "say verbose line self = (if verbose then self\<lparr>stdout := stdout self @ [line]\<rparr> else self)"

text \<open>The body of the \<^verbatim>\<open>try\<close> for one entry: the exception it raises, if any.\<close>

definition connect_try ::
  "('kw, 'inst) world \<Rightarrow> bool \<Rightarrow> bool \<Rightarrow> string \<Rightarrow> 'kw entry \<Rightarrow> ('kw, 'inst) registry
     \<Rightarrow> py_error option \<times> ('kw, 'inst) registry" where
  "connect_try w init verbose name info self =
     (case instantiate w info of
        Inl e \<Rightarrow> (Some e, self\<lparr>calls := calls self @ [Instantiate info]\<rparr>)
      | Inr inst \<Rightarrow>
          (let bound = say verbose (Connected name)
                 (self\<lparr>attrs := (attrs self)(name \<mapsto> Device inst),
                       calls := calls self @ [Instantiate info]\<rparr>)
           in case cfg_init info of
                None \<Rightarrow> (None, bound)
              | Some sequence \<Rightarrow>
                  if \<not> init then (None, bound)
                  else
                    (case attrs bound ''initiaize_device'' of
                       Some shadow \<Rightarrow> (Some (TypeError ''object is not callable''), bound)
                     | None \<Rightarrow>
                         (case initiaize_device w inst sequence bound of
                            (Some e, inst', self') \<Rightarrow>
                              (Some e, self'\<lparr>attrs := (attrs self')(name \<mapsto> Device inst')\<rparr>)
                          | (None, inst', self') \<Rightarrow>
                              (None, say verbose Initialzed
                                 (self'\<lparr>attrs := (attrs self')(name \<mapsto> Device inst')\<rparr>))))))"

text \<open>One entry with the two \<^verbatim>\<open>except\<close> clauses.\<close>

definition connect_entry ::
  "('kw, 'inst) world \<Rightarrow> bool \<Rightarrow> bool \<Rightarrow> string \<Rightarrow> 'kw entry \<Rightarrow> ('kw, 'inst) registry
     \<Rightarrow> py_error option \<times> ('kw, 'inst) registry" where
  "connect_entry w init verbose name info self =
     (case connect_try w init verbose name info self of
        (None, self') \<Rightarrow> (None, self')
      | (Some error, self') \<Rightarrow>
          if is_transport_error error then
            (let told = say verbose (FailedConnection name) self' in
             if object_mask_truthy told then (Some (ResourceConnectionError error), told)
             else (None, told))
          else if is_resolution_error error then
            (let told = say verbose (UnsupportedDevice name error) self' in
             if object_mask_truthy told then (Some (UnsupportedResourceError error), told)
             else (None, told))
          else (Some error, self'))"

fun connect_loop ::
  "('kw, 'inst) world \<Rightarrow> bool \<Rightarrow> bool \<Rightarrow> 'kw configuration \<Rightarrow> ('kw, 'inst) registry
     \<Rightarrow> py_error option \<times> ('kw, 'inst) registry" where
  "connect_loop w init verbose [] self = (None, self)"
| "connect_loop w init verbose ((name, info) # items) self =
     (case connect_entry w init verbose name info self of
        (Some e, self') \<Rightarrow> (Some e, self')
      | (None, self') \<Rightarrow> connect_loop w init verbose items self')"

definition connect_to_devices ::
  "('kw, 'inst) world \<Rightarrow> bool \<Rightarrow> bool \<Rightarrow> ('kw, 'inst) registry
     \<Rightarrow> py_error option \<times> ('kw, 'inst) registry" where
  "connect_to_devices w init verbose self =
     (case attrs self ''configuration'' of
        Some (Configuration configuration) \<Rightarrow>
          (case attrs self ''object_mask'' of
             Some (ObjectMask object_mask) \<Rightarrow>
               (let kept = (if object_mask \<noteq> {}
                            then filter (\<lambda>(name, info). name \<in> object_mask) configuration
                            else configuration)
                in connect_loop w init verbose kept
                     (self\<lparr>attrs := (attrs self)(''configuration'' \<mapsto> Configuration kept)\<rparr>))
           | _ \<Rightarrow> (Some (AttributeError ''object_mask''), self))
      | _ \<Rightarrow> (Some (AttributeError ''configuration''), self))"

text \<open>
  \<^verbatim>\<open>EnvironmentSetup(equipment_setup, init, object_mask=..., verbose=...)\<close>: the
  exception the construction raises, if any, and the registry with what it did.
\<close>

definition EnvironmentSetup ::
  "('kw, 'inst) world \<Rightarrow> 'kw device_setup \<Rightarrow> bool \<Rightarrow> string list \<Rightarrow> bool
     \<Rightarrow> py_error option \<times> ('kw, 'inst) registry" where
  "EnvironmentSetup w equipment_setup init object_mask verbose =
     (case read_configuration w equipment_setup \<lparr>attrs = Map.empty, stdout = [], calls = []\<rparr> of
        (Some e, self) \<Rightarrow> (Some e, self)
      | (None, self) \<Rightarrow>
          (let masked = self\<lparr>attrs := (attrs self)(''object_mask'' \<mapsto> ObjectMask (set object_mask))\<rparr>
           in case check_mask masked of
                Some e \<Rightarrow> (Some e, masked)
              | None \<Rightarrow> connect_to_devices w init verbose masked))"


section \<open>Logging utilities\<close>

text \<open>
  Files are a map from path text to contents. \<^verbatim>\<open>zip(*data)\<close> takes one element from
  every sequence until one of them is exhausted; \<^verbatim>\<open>zip_longest(*data, fillvalue=v)\<close>
  goes on until all are exhausted and puts \<open>v\<close> where a sequence has ended.
\<close>

lemma sum_length_tl_less:
  "\<not> list_all (\<lambda>xs. xs = []) xss \<Longrightarrow>
     sum_list (map length (map tl xss)) < sum_list (map length xss)"
proof (induction xss)
  case Nil
  then show ?case by simp
next
  case (Cons xs xss)
  have le: "sum_list (map length (map tl yss)) \<le> sum_list (map length yss)" for yss :: "'a list list"
    by (induction yss) auto
  show ?case
  proof (cases "xs = []")
    case True
    with Cons show ?thesis by simp
  next
    case False
    then have "length (tl xs) < length xs" by (cases xs) simp_all
    with le [of xss] show ?thesis by simp
  qed
qed

function zip_rows :: "'a list list \<Rightarrow> 'a list list" where
  "zip_rows xss =
     (if xss = [] \<or> list_ex (\<lambda>xs. xs = []) xss then []
      else map hd xss # zip_rows (map tl xss))"
  by pat_completeness auto
termination
proof (relation "measure (\<lambda>xss. sum_list (map length xss))")
  show "wf (measure (\<lambda>xss :: 'a list list. sum_list (map length xss)))"
    by simp
next
  fix xss :: "'a list list"
  assume "\<not> (xss = [] \<or> list_ex (\<lambda>xs. xs = []) xss)"
  then have "\<not> list_all (\<lambda>xs. xs = []) xss"
    by (cases xss) (auto simp: list_ex_iff)
  then show "(map tl xss, xss) \<in> measure (\<lambda>xss. sum_list (map length xss))"
    using sum_length_tl_less [of xss] by simp
qed

function zip_longest :: "'a \<Rightarrow> 'a list list \<Rightarrow> 'a list list" where
  "zip_longest fillvalue xss =
     (if list_all (\<lambda>xs. xs = []) xss then []
      else map (\<lambda>xs. case xs of [] \<Rightarrow> fillvalue | x # r \<Rightarrow> x) xss
           # zip_longest fillvalue (map tl xss))"
  by pat_completeness auto
termination
proof (relation "measure (\<lambda>(fillvalue, xss). sum_list (map length xss))")
  show "wf (measure (\<lambda>(fillvalue :: 'a, xss :: 'a list list). sum_list (map length xss)))"
    by simp
next
  fix fillvalue :: 'a and xss :: "'a list list"
  assume "\<not> list_all (\<lambda>xs. xs = []) xss"
  then show "((fillvalue, map tl xss), (fillvalue, xss))
               \<in> measure (\<lambda>(fillvalue, xss). sum_list (map length xss))"
    using sum_length_tl_less [of xss] by simp
qed

declare zip_rows.simps [simp del]
declare zip_longest.simps [simp del]

text \<open>\<^verbatim>\<open>sep.join(parts)\<close>.\<close>

fun join :: "string \<Rightarrow> string list \<Rightarrow> string" where
  "join sep [] = []"
| "join sep [x] = x"
| "join sep (x # y # r) = x @ sep @ join sep (y # r)"

text \<open>
  \<^verbatim>\<open>str\<close> of a tuple, which is what \<^verbatim>\<open>print\<close> writes for a row: the
  \<^verbatim>\<open>repr\<close> of its items (a parameter), comma-separated, in parentheses.
\<close>

definition str_tuple :: "('a \<Rightarrow> string) \<Rightarrow> 'a list \<Rightarrow> string" where
  "str_tuple repr row =
     (case row of
        [] \<Rightarrow> ''()''
      | [x] \<Rightarrow> ''('' @ repr x @ '',)''
      | _ \<Rightarrow> ''('' @ join '', '' (map repr row) @ '')'')"

text \<open>\<^verbatim>\<open>print(*rows, sep=',', end='\n', file=f)\<close>: the text written.\<close>

definition print_rows :: "('a \<Rightarrow> string) \<Rightarrow> 'a list list \<Rightarrow> string" where
  "print_rows repr rows = join '','' (map (str_tuple repr) rows) @ ''\<newline>''"

record path =
  path_parent :: string
  path_stem :: string
  path_suffix :: string

definition dump_array_data ::
  "('a \<Rightarrow> string) \<Rightarrow> path \<Rightarrow> 'a list list \<Rightarrow> bool \<Rightarrow> 'a option \<Rightarrow> (string \<rightharpoonup> string)
     \<Rightarrow> (string \<rightharpoonup> string)" where
  "dump_array_data repr file_path data init fill_value files =
     (let file_path_ext = path_parent file_path @ ''/'' @ path_stem file_path @ ''.csv'';
          rows = (case fill_value of
                    Some v \<Rightarrow> zip_longest v data
                  | None \<Rightarrow> zip_rows data);
          written = print_rows repr rows
      in files(file_path_ext \<mapsto>
           (if init then written
            else (case files file_path_ext of None \<Rightarrow> written | Some old \<Rightarrow> old @ written))))"

text \<open>The lines of a text: the pieces that end in a newline.\<close>

definition count_lines :: "string \<Rightarrow> nat" where
  "count_lines s = length (filter (\<lambda>c. c = CHR ''\<newline>'') s)"

text \<open>
  \<^verbatim>\<open>repr\<close> of a value; a string is taken to hold plain characters only (no quote,
  backslash or control character), so that its \<^verbatim>\<open>repr\<close> is the string in single
  quotes.
\<close>

fun py_repr :: "('f \<Rightarrow> string) \<Rightarrow> 'f pyval \<Rightarrow> string" where
  "py_repr fstr (PStr s) = [CHR 0x27] @ s @ [CHR 0x27]"
| "py_repr fstr v = py_str fstr v"

text \<open>
  The clock: \<^verbatim>\<open>strftime\<close> formats the local time it reads when called.
  \<^verbatim>\<open>create_test_log\<close> calls it twice, so it reads two times.
\<close>

record struct_time =
  tm_year :: nat
  tm_mon :: nat
  tm_mday :: nat
  tm_hour :: nat
  tm_min :: nat
  tm_sec :: nat

definition pad2 :: "nat \<Rightarrow> string" where
  "pad2 n = (if n < 10 then ''0'' @ str_nat n else str_nat n)"

text \<open>\<^verbatim>\<open>strftime("%Y%m%d%H%M%S")\<close> and \<^verbatim>\<open>strftime("%Y/%m/%d %H:%M:%S")\<close>.\<close>

definition file_t_stamp_of :: "struct_time \<Rightarrow> string" where
  "file_t_stamp_of t =
     str_nat (tm_year t) @ pad2 (tm_mon t) @ pad2 (tm_mday t)
       @ pad2 (tm_hour t) @ pad2 (tm_min t) @ pad2 (tm_sec t)"

definition run_time_of :: "struct_time \<Rightarrow> string" where
  "run_time_of t =
     str_nat (tm_year t) @ ''/'' @ pad2 (tm_mon t) @ ''/'' @ pad2 (tm_mday t) @ '' ''
       @ pad2 (tm_hour t) @ '':'' @ pad2 (tm_min t) @ '':'' @ pad2 (tm_sec t)"

text \<open>
  The file system: the directories and the files that exist, by path text. A path is
  joined to a name with a slash; the names joined here are single relative components.
\<close>

record filesystem =
  dirs :: "string set"
  files :: "string \<rightharpoonup> string"

definition dirname :: "string \<Rightarrow> string" where
  "dirname p = rev (drop 1 (dropWhile (\<lambda>c. c \<noteq> CHR ''/'') (rev p)))"

text \<open>\<^verbatim>\<open>Path.mkdir()\<close> with \<^verbatim>\<open>parents=False, exist_ok=False\<close>.\<close>

definition mkdir :: "string \<Rightarrow> filesystem \<Rightarrow> py_error + filesystem" where
  "mkdir p fs =
     (if p \<in> dirs fs then Inl (FileExistsError p)
      else if files fs p \<noteq> None then Inl (FileExistsError p)
      else if dirname p \<notin> dirs fs then Inl (FileNotFoundError p)
      else Inr (fs\<lparr>dirs := insert p (dirs fs)\<rparr>))"

text \<open>
  \<^verbatim>\<open>create_test_log(base_dir, images, raw_data, **test_info)\<close>; \<open>json_dump\<close> is the
  text \<^verbatim>\<open>json.dump\<close> writes for the dictionary, \<open>now1\<close> and \<open>now2\<close> are the two
  readings of the clock.
\<close>

definition create_test_log ::
  "('f \<Rightarrow> string) \<Rightarrow> ((string \<times> 'f pyval) list \<Rightarrow> string) \<Rightarrow> struct_time \<Rightarrow> struct_time
     \<Rightarrow> string \<Rightarrow> bool \<Rightarrow> bool \<Rightarrow> (string \<times> 'f pyval) list \<Rightarrow> filesystem
     \<Rightarrow> (py_error + string) \<times> filesystem" where
  "create_test_log fstr json_dump now1 now2 base_dir images raw_data test_info fs =
     (let test_name = (case map_of test_info ''test_name'' of
                         Some v \<Rightarrow> py_str fstr v
                       | None \<Rightarrow> ''test_data'');
          file_t_stamp = file_t_stamp_of now1;
          test_info' = AList.update ''run_time'' (PStr (run_time_of now2)) test_info;
          test_dir = base_dir @ ''/'' @ test_name @ ''_'' @ file_t_stamp
      in case mkdir test_dir fs of
           Inl e \<Rightarrow> (Inl e, fs)
         | Inr fs1 \<Rightarrow>
             (case (if images then mkdir (test_dir @ ''/images'') fs1 else Inr fs1) of
                Inl e \<Rightarrow> (Inl e, fs1)
              | Inr fs2 \<Rightarrow>
                  (case (if raw_data then mkdir (test_dir @ ''/raw_data'') fs2 else Inr fs2) of
                     Inl e \<Rightarrow> (Inl e, fs2)
                   | Inr fs3 \<Rightarrow>
                       if test_info' \<noteq> [] then
                         (Inr test_dir,
                          fs3\<lparr>files := (files fs3)
                                (test_dir @ ''/log_'' @ file_t_stamp @ ''.txt''
                                   \<mapsto> json_dump test_info')\<rparr>)
                       else (Inr test_dir, fs3))))"


section \<open>Example data\<close>

text \<open>
  What \<^verbatim>\<open>str\<close> prints for the three representative frequencies \<open>0.0\<close>, \<open>1e3\<close> and
  \<open>2.5e6\<close>, and \<^verbatim>\<open>float\<close> on those texts.
\<close>

definition float_reprs :: "(real \<times> string) list" where
  "float_reprs = [(0, ''0.0''), (1000, ''1000.0''), (2500000, ''2500000.0'')]"

definition table_str :: "real \<Rightarrow> string" where
  "table_str x = (case map_of float_reprs x of Some s \<Rightarrow> s | None \<Rightarrow> ''nan'')"

definition table_float :: "string \<Rightarrow> real option" where
  "table_float s = map_of (map (\<lambda>(x, s). (s, x)) float_reprs) s"

text \<open>
  A bench of three devices. A device object is the list of the method calls it has
  served. The address \<^verbatim>\<open>GPIB0::2::INSTR\<close> is unreachable; \<^verbatim>\<open>idn\<close> is a
  property, not a method; \<^verbatim>\<open>set_voltage\<close> takes the keyword argument
  \<^verbatim>\<open>voltage\<close> only.
\<close>

type_synonym bench_kw = "(string \<times> int) list"

definition bench :: "(bench_kw, string list) world" where
  "bench =
     \<lparr>load_json = (\<lambda>p. Inl (FileNotFoundError p)),
      instantiate = (\<lambda>info. if cfg_address info = ''GPIB0::2::INSTR''
                             then Inl (VisaIOError ''VI_ERROR_TMO'') else Inr []),
      dir = (\<lambda>d. [''__init__'', ''idn'', ''set_voltage'', ''off'']),
      getattr_callable = (\<lambda>d name. Inr (name \<noteq> ''idn'')),
      invoke = (\<lambda>d method kw.
                  if method = ''set_voltage'' \<and> map fst kw \<noteq> [''voltage'']
                  then (Some (TypeError ''unexpected keyword argument''), d)
                  else (None, d @ [method]))\<rparr>"

definition bench_entry :: "string \<Rightarrow> (string \<times> bench_kw) list option \<Rightarrow> bench_kw entry" where
  "bench_entry adr sequence =
     \<lparr>cfg_object = ''Chroma_62012P'', cfg_definition = ''pythonequipmentdrivers.source'',
      cfg_address = adr, cfg_kwargs = None, cfg_init = sequence\<rparr>"

definition bench_setup :: "bench_kw configuration" where
  "bench_setup =
     [(''source_v_in'', bench_entry ''GPIB0::1::INSTR'' None),
      (''load'', bench_entry ''GPIB0::2::INSTR'' None),
      (''meter'', bench_entry ''GPIB0::3::INSTR'' None)]"

definition bench_sequence :: "(string \<times> bench_kw) list" where
  "bench_sequence = [(''set_voltage'', [(''volts'', 0)]), (''off'', [])]"

definition bench_bound :: "(bench_kw, string list) registry" where
  "bench_bound =
     \<lparr>attrs = [''source_v_in'' \<mapsto> Device []],
      stdout = [Connected ''source_v_in''],
      calls = [Instantiate (bench_entry ''GPIB0::1::INSTR'' (Some bench_sequence))]\<rparr>"

definition may_21 :: struct_time where
  "may_21 = \<lparr>tm_year = 2021, tm_mon = 5, tm_mday = 21, tm_hour = 9, tm_min = 59, tm_sec = 31\<rparr>"


section \<open>Evaluation of text helpers\<close>

lemma str_int_digits:
  "str_int 1 = ''1''" "str_int 2 = ''2''" "str_int 3 = ''3''" "str_int 4 = ''4''"
  "str_int 5 = ''5''" "str_int 6 = ''6''" "str_int 7 = ''7''" "str_int 8 = ''8''"
  by code_simp+

lemma upper_examples:
  "upper ''FOO'' = ''FOO''" "upper ''inf'' = ''INF''" "upper ''max'' = ''MAX''"
  "upper ''up'' = ''UP''"
  by code_simp+

lemma stamp_example: "file_t_stamp_of may_21 = ''20210521095931''"
  by code_simp





section \<open>Results about equality\<close>

text \<open>
  C7 (as amended). For all sessions \<open>a\<close> and \<open>b\<close>, \<open>a == b\<close> holds iff they have the
  same driver class name and the same address, whatever their transport resources are, and
  \<open>a != b\<close> is its negation. Two sessions of one driver class on one address, opened
  at different times (different resources), are equal.
\<close>

theorem scpi_eq_iff_class_name_and_address:
  "(scpi_eq a (Instrument b) =
      (class_name (instr_class a) = class_name (instr_class b) \<and> address a = address b))
   \<and> (scpi_ne a (Instrument b) = (\<not> scpi_eq a (Instrument b)))
   \<and> scpi_eq \<lparr>instr_class = c, address = adr, instrument = r1\<rparr>
        (Instrument \<lparr>instr_class = c, address = adr, instrument = r2\<rparr>)"
  by (simp add: scpi_eq_def scpi_ne_def)

text \<open>
  C7 as stated fails: two sessions whose classes are different class objects with the same
  name (defined in two modules) and the same address compare equal, although their concrete
  driver types differ.
\<close>

theorem scpi_eq_distinct_classes_counterexample:
  "scpi_eq
     \<lparr>instr_class = \<lparr>class_module = ''pythonequipmentdrivers.source'', class_name = ''Supply''\<rparr>,
      address = ''GPIB0::14::INSTR'', instrument = 0\<rparr>
     (Instrument
       \<lparr>instr_class = \<lparr>class_module = ''pythonequipmentdrivers.sink'', class_name = ''Supply''\<rparr>,
        address = ''GPIB0::14::INSTR'', instrument = 1\<rparr>)
   \<and> \<lparr>class_module = ''pythonequipmentdrivers.source'', class_name = ''Supply''\<rparr>
       \<noteq> \<lparr>class_module = ''pythonequipmentdrivers.sink'', class_name = ''Supply''\<rparr>"
  by (simp add: scpi_eq_def)


section \<open>Results about the function generator driver\<close>

subsection \<open>Enumerated arguments\<close>

text \<open>
  The setters of the burst mode, the burst gate polarity and the pulse hold check the
  upper-cased argument and raise before writing.
\<close>

lemma validated_setters_reject_before_write:
  \<open>(upper s \<notin> set [''TRIG'', ''GAT''] \<longrightarrow>
      set_burst_mode (PStr s) source tr
        = (Inl (ValueError [Msg ''Invalid mode, valid modes are "TRIG"/"GAT"'']), tr))
   \<and> (upper s \<notin> set [''NORM'', ''INV''] \<longrightarrow>
      set_burst_gate_polarity (PStr s) source tr
        = (Inl (ValueError [Msg ''Invalid mode, valid modes are "NORM"/"INV"'']), tr))
   \<and> (upper s \<notin> set [''DCYC'', ''WIDT''] \<longrightarrow>
      fst (set_pulse_hold (PStr s) source tr) \<in> range (Inl \<circ> ValueError)
      \<and> snd (set_pulse_hold (PStr s) source tr) = tr)\<close>
  by (simp add: set_burst_mode_def set_burst_gate_polarity_def set_pulse_hold_def)

text \<open>
  C2. Every enumerated-string setter is claimed to raise before any write when the
  upper-cased argument is outside its allowed set. \<^verbatim>\<open>set_wave_type\<close> does not: for
  the waveform name \<^verbatim>\<open>FOO\<close>, which is not one of \<^verbatim>\<open>valid_wave_types\<close>, it
  writes the command to the transport and returns.
\<close>

theorem set_wave_type_writes_unlisted_value:
  "upper ''FOO'' \<notin> set valid_wave_types
   \<and> set_wave_type fstr (PStr ''FOO'') 1 [] = (Inr (), [Write ''SOUR1:FUNC FOO''])"
  by (simp add: set_wave_type_def valid_wave_types_def upper_examples str_int_digits)

subsection \<open>Numeric arguments with sentinel strings\<close>

text \<open>
  C3 (as amended). \<^verbatim>\<open>set_burst_ncycles\<close> sends an \<^verbatim>\<open>int\<close> argument verbatim and
  \<^verbatim>\<open>set_burst_phase\<close> sends a \<^verbatim>\<open>float\<close> argument verbatim; a string whose
  upper-cased form is a recognised sentinel (\<^verbatim>\<open>MIN\<close>, \<^verbatim>\<open>MAX\<close>, and
  \<^verbatim>\<open>INF\<close> for the cycle count) is upper-cased and sent; every other argument raises
  \<^verbatim>\<open>ValueError\<close> and nothing is written.
\<close>

theorem burst_setters_branch_on_type:
  "(isinstance_int v \<longrightarrow>
      set_burst_ncycles fstr v source tr
        = (Inr (), tr @ [Write (''SOUR'' @ str_int source @ '':BURS:NCYC '' @ py_str fstr v)]))
   \<and> (upper s \<in> {''INF'', ''MIN'', ''MAX''} \<longrightarrow>
      set_burst_ncycles fstr (PStr s) source tr
        = (Inr (), tr @ [Write (''SOUR'' @ str_int source @ '':BURS:NCYC '' @ upper s)]))
   \<and> (\<not> isinstance_int v \<and> (\<forall>t. v = PStr t \<longrightarrow> upper t \<notin> {''INF'', ''MIN'', ''MAX''}) \<longrightarrow>
      set_burst_ncycles fstr v source tr
        = (Inl (ValueError [Msg ''invalid entry for ncycles'']), tr))
   \<and> (isinstance_float v \<longrightarrow>
      set_burst_phase fstr v source tr
        = (Inr (), tr @ [Write (''SOUR'' @ str_int source @ '':BURS:PHASE '' @ py_str fstr v)]))
   \<and> (upper s \<in> {''MIN'', ''MAX''} \<longrightarrow>
      set_burst_phase fstr (PStr s) source tr
        = (Inr (), tr @ [Write (''SOUR'' @ str_int source @ '':BURS:PHASE '' @ upper s)]))
   \<and> (\<not> isinstance_float v \<and> (\<forall>t. v = PStr t \<longrightarrow> upper t \<notin> {''MIN'', ''MAX''}) \<longrightarrow>
      set_burst_phase fstr v source tr
        = (Inl (ValueError [Msg ''invalid entry for phase'']), tr))"
proof -
  have n: "set_burst_ncycles fstr v source tr
             = (Inl (ValueError [Msg ''invalid entry for ncycles'']), tr)"
    if "\<not> isinstance_int v" and "\<forall>t. v = PStr t \<longrightarrow> upper t \<notin> {''INF'', ''MIN'', ''MAX''}"
    using that by (cases v) (simp_all add: set_burst_ncycles_def)
  have p: "set_burst_phase fstr v source tr
             = (Inl (ValueError [Msg ''invalid entry for phase'']), tr)"
    if "\<not> isinstance_float v" and "\<forall>t. v = PStr t \<longrightarrow> upper t \<notin> {''MIN'', ''MAX''}"
    using that by (cases v) (simp_all add: set_burst_phase_def)
  show ?thesis
    using n p by (simp add: set_burst_ncycles_def set_burst_phase_def)
qed

theorem burst_setters_branch_on_type_witness:
  "set_burst_ncycles (\<lambda>x::real. ''0.5'') (PInt 5) 1 [] = (Inr (), [Write ''SOUR1:BURS:NCYC 5''])
   \<and> set_burst_ncycles (\<lambda>x::real. ''0.5'') (PStr ''inf'') 1 []
       = (Inr (), [Write ''SOUR1:BURS:NCYC INF''])
   \<and> set_burst_ncycles (\<lambda>x::real. ''0.5'') (PNone) 1 []
       = (Inl (ValueError [Msg ''invalid entry for ncycles'']), [])
   \<and> set_burst_phase (\<lambda>x::real. ''0.5'') (PFloat (1/2)) 1 []
       = (Inr (), [Write ''SOUR1:BURS:PHASE 0.5''])
   \<and> set_burst_phase (\<lambda>x::real. ''0.5'') (PStr ''max'') 1 []
       = (Inr (), [Write ''SOUR1:BURS:PHASE MAX''])
   \<and> set_burst_phase (\<lambda>x::real. ''0.5'') (PNone) 1 []
       = (Inl (ValueError [Msg ''invalid entry for phase'']), [])"
  using burst_setters_branch_on_type [of "PInt 5" "\<lambda>x::real. ''0.5''" 1 "[]" "''inf''"]
    burst_setters_branch_on_type [of "PFloat (1/2)" "\<lambda>x::real. ''0.5''" 1 "[]" "''max''"]
    burst_setters_branch_on_type [of "PNone" "\<lambda>x::real. ''0.5''" 1 "[]" "''max''"]
  by (simp add: upper_examples str_int_digits)

text \<open>
  C3 as stated fails: the integer \<open>90\<close> is a numeric argument, and
  \<^verbatim>\<open>set_burst_phase\<close> raises on it without writing; the float \<open>1.5\<close> is a numeric
  argument, and \<^verbatim>\<open>set_burst_ncycles\<close> raises on it without writing.
\<close>

theorem burst_numeric_argument_counterexample:
  "set_burst_phase (\<lambda>x::real. ''1.5'') (PInt 90) 1 []
     = (Inl (ValueError [Msg ''invalid entry for phase'']), [])
   \<and> set_burst_ncycles (\<lambda>x::real. ''1.5'') (PFloat (3/2)) 1 []
     = (Inl (ValueError [Msg ''invalid entry for ncycles'']), [])"
  by (simp add: set_burst_phase_def set_burst_ncycles_def)

subsection \<open>Frequency round trip\<close>







subsection \<open>Pulse edge selector\<close>

text \<open>
  C10. When the upper-cased \<^verbatim>\<open>which\<close> is neither \<^verbatim>\<open>BOTH\<close> nor a rise or fall
  synonym, \<^verbatim>\<open>set_pulse_edge_time\<close> writes nothing and returns without an error,
  and \<^verbatim>\<open>get_pulse_edge_time\<close> raises \<^verbatim>\<open>ValueError\<close> (before any query).
\<close>

theorem pulse_edge_time_unrecognised_which:
  assumes \<open>upper w \<noteq> ''BOTH''\<close>
    and \<open>upper w \<notin> set [''RISE'', ''RISING'', ''R'', ''LEAD'', ''LEADING'']\<close>
    and \<open>upper w \<notin> set [''FALL'', ''FALLING'', ''F'', ''TRAIL'', ''TRAILING'']\<close>
  shows \<open>set_pulse_edge_time fstr time (PStr w) source tr = (Inr (), tr)
     \<and> get_pulse_edge_time fparse reply (PStr w) source tr
        = (Inl (ValueError [Msg ''Invalid option for "which" arg'']), tr)\<close>
  using assms by (simp add: set_pulse_edge_time_def get_pulse_edge_time_def)

theorem pulse_edge_time_unrecognised_which_witness:
  \<open>set_pulse_edge_time table_str (PFloat 0) (PStr ''up'') 1 [Write ''*RST'']
       = (Inr (), [Write ''*RST''])
     \<and> get_pulse_edge_time table_float echo_reply (PStr ''up'') 1 [Write ''*RST'']
        = (Inl (ValueError [Msg ''Invalid option for "which" arg'']), [Write ''*RST''])\<close>
  using pulse_edge_time_unrecognised_which
    [of "''up''" table_str "PFloat 0" 1 "[Write ''*RST'']" table_float echo_reply]
  by (simp add: upper_examples)


section \<open>Results about the equipment registry\<close>

subsection \<open>The mask check\<close>

lemma read_configuration_loaded:
  assumes "equipment_setup = SetupDict cfg
           \<or> (equipment_setup = SetupPath p \<and> load_json w p = Inr cfg)"
  shows "read_configuration w equipment_setup self
           = (None, self\<lparr>attrs := (attrs self)(''configuration'' \<mapsto> Configuration cfg)\<rparr>)"
  using assms by (auto simp add: read_configuration_def)

text \<open>
  C1. When the configuration has been read (given as a dictionary, or loaded from a
  file), the mask is not empty and some name of the mask is not a key of the
  configuration, the construction raises \<^verbatim>\<open>ValueError\<close> with the message
  \<^verbatim>\<open>Required Equipment Missing\<close> and exactly the set of the missing names, and no
  driver class has been instantiated and no device method called.
\<close>

theorem missing_required_equipment_raises_before_connecting:
  fixes w :: "('kw, 'inst) world"
  assumes loaded: "equipment_setup = SetupDict cfg
                   \<or> (equipment_setup = SetupPath p \<and> load_json w p = Inr cfg)"
    and nonempty: "set object_mask \<noteq> {}"
    and missing: "\<exists>name \<in> set object_mask. name \<notin> fst ` set cfg"
  shows "fst (EnvironmentSetup w equipment_setup init object_mask verbose)
           = Some (ValueError [Msg ''Required Equipment Missing'',
                               Names (set object_mask - fst ` set cfg)])
         \<and> calls (snd (EnvironmentSetup w equipment_setup init object_mask verbose)) = []"
proof -
  let ?m = "set object_mask"
  let ?common = "set (map fst cfg) \<inter> ?m"
  have ne: "?common \<noteq> ?m"
    using missing by auto
  have diff: "?m - ?common = ?m - fst ` set cfg"
    by auto
  have chk: "check_mask (\<lparr>attrs = [''configuration'' \<mapsto> Configuration cfg,
                                      ''object_mask'' \<mapsto> ObjectMask ?m],
                           stdout = [], calls = []\<rparr> :: ('kw, 'inst) registry)
               = Some (ValueError [Msg ''Required Equipment Missing'', Names (?m - fst ` set cfg)])"
    using nonempty ne diff by (simp add: check_mask_def Let_def)
  show ?thesis
    using chk by (simp add: EnvironmentSetup_def Let_def read_configuration_loaded [OF loaded])
qed

theorem missing_required_equipment_witness:
  "fst (EnvironmentSetup bench (SetupDict bench_setup) False [''meter'', ''scope''] True)
     = Some (ValueError [Msg ''Required Equipment Missing'', Names {''scope''}])
   \<and> calls (snd (EnvironmentSetup bench (SetupDict bench_setup) False [''meter'', ''scope''] True))
       = []"
  using missing_required_equipment_raises_before_connecting
    [where equipment_setup = "SetupDict bench_setup" and cfg = bench_setup
       and object_mask = "[''meter'', ''scope'']" and w = bench and init = False
       and verbose = True]
  by (auto simp add: bench_setup_def)

subsection \<open>Connecting\<close>

lemma say_attrs [simp]: "attrs (say verbose line self) = attrs self"
  by (simp add: say_def)

lemma connect_entry_connected:
  fixes w :: "('kw, 'inst) world"
  assumes "instantiate w info = Inr d" and "init \<longrightarrow> cfg_init info = None"
  shows "connect_entry w init verbose name info self
           = (None, say verbose (Connected name)
                      (self\<lparr>attrs := (attrs self)(name \<mapsto> Device d),
                            calls := calls self @ [Instantiate info]\<rparr>))"
  using assms by (cases "cfg_init info") (auto simp add: connect_entry_def connect_try_def)

lemma connect_entry_unreachable:
  fixes w :: "('kw, 'inst) world"
  assumes "instantiate w info = Inl error" and "is_transport_error error"
  shows "connect_entry w init verbose name info self
           = (let told = say verbose (FailedConnection name)
                           (self\<lparr>calls := calls self @ [Instantiate info]\<rparr>)
              in if object_mask_truthy told then (Some (ResourceConnectionError error), told)
                 else (None, told))"
  using assms by (simp add: connect_entry_def connect_try_def)

lemma say_calls [simp]: "calls (say verbose line self) = calls self"
  by (simp add: say_def)

lemma object_mask_truthy_say [simp]: "object_mask_truthy (say verbose line self) = object_mask_truthy self"
  by (simp add: object_mask_truthy_def)

text \<open>
  Three entries are configured, the first and the third instantiate and the second fails
  with a transport error (\<^verbatim>\<open>VisaIOError\<close> or \<^verbatim>\<open>ConnectionError\<close>); no
  initialization sequence runs for the first and the third. When the first device is not
  named \<^verbatim>\<open>object_mask\<close>, the attribute in which the registry itself keeps the
  mask, the registry does what is specified. With no mask, the construction raises
  nothing, the first and the third device are bound under their names and no device is
  bound under the second name. With a mask of configured names that holds the second
  name, the construction raises \<^verbatim>\<open>ResourceConnectionError\<close> carrying the transport
  error.
\<close>

lemma second_of_three_unreachable:
  fixes w :: "('kw, 'inst) world"
  assumes names: "distinct [n1, n2, n3]"
    and first: "instantiate w e1 = Inr d1"
    and second: "instantiate w e2 = Inl error" "is_transport_error error"
    and third: "instantiate w e3 = Inr d3"
    and no_init: "init \<longrightarrow> cfg_init e1 = None \<and> cfg_init e3 = None"
    and plain: "n1 \<noteq> ''object_mask''"
  shows "(case EnvironmentSetup w (SetupDict [(n1, e1), (n2, e2), (n3, e3)]) init [] verbose of
            (raised, self) \<Rightarrow>
              raised = None \<and> handle self n1 = Some d1 \<and> handle self n3 = Some d3
              \<and> handle self n2 = None)
         \<and> (set object_mask \<noteq> {} \<and> set object_mask \<subseteq> {n1, n2, n3} \<and> n2 \<in> set object_mask \<longrightarrow>
              fst (EnvironmentSetup w (SetupDict [(n1, e1), (n2, e2), (n3, e3)]) init
                     object_mask verbose)
                = Some (ResourceConnectionError error))"
proof -
  let ?cfg = "[(n1, e1), (n2, e2), (n3, e3)]"
  have i1: "init \<longrightarrow> cfg_init e1 = None" and i3: "init \<longrightarrow> cfg_init e3 = None"
    using no_init by simp_all
  note step = connect_entry_connected [OF first i1] connect_entry_connected [OF third i3]
    connect_entry_unreachable [OF second]
  have unmasked:
    "case EnvironmentSetup w (SetupDict ?cfg) init [] verbose of
       (raised, self) \<Rightarrow>
         raised = None \<and> handle self n1 = Some d1 \<and> handle self n3 = Some d3
         \<and> handle self n2 = None"
    using names plain
    by (auto simp add: EnvironmentSetup_def read_configuration_def check_mask_def
        connect_to_devices_def step object_mask_truthy_def handle_def Let_def)
  have masked:
    "fst (EnvironmentSetup w (SetupDict ?cfg) init object_mask verbose)
       = Some (ResourceConnectionError error)"
    if m: "set object_mask \<noteq> {} \<and> set object_mask \<subseteq> {n1, n2, n3} \<and> n2 \<in> set object_mask"
  proof -
    from m have sub: "set (map fst ?cfg) \<inter> set object_mask = set object_mask"
      by auto
    show ?thesis
      using m sub
      by (simp add: EnvironmentSetup_def read_configuration_def check_mask_def
          connect_to_devices_def step object_mask_truthy_def Let_def)
  qed
  show ?thesis
    using unmasked masked by blast
qed

lemma second_of_three_unreachable_example:
  "(case EnvironmentSetup bench (SetupDict bench_setup) False [] True of
      (raised, self) \<Rightarrow>
        raised = None \<and> handle self ''source_v_in'' = Some [] \<and> handle self ''meter'' = Some []
        \<and> handle self ''load'' = None)
   \<and> fst (EnvironmentSetup bench (SetupDict bench_setup) False [''load'', ''meter''] True)
       = Some (ResourceConnectionError (VisaIOError ''VI_ERROR_TMO''))"
  using second_of_three_unreachable
    [where w = bench and ?n1.0 = "''source_v_in''" and ?n2.0 = "''load''" and ?n3.0 = "''meter''"
       and ?e1.0 = "bench_entry ''GPIB0::1::INSTR'' None"
       and ?e2.0 = "bench_entry ''GPIB0::2::INSTR'' None"
       and ?e3.0 = "bench_entry ''GPIB0::3::INSTR'' None"
       and ?d1.0 = "[]" and ?d3.0 = "[]" and error = "VisaIOError ''VI_ERROR_TMO''"
       and init = False and verbose = True and object_mask = "[''load'', ''meter'']"]
  by (simp add: bench_setup_def bench_def bench_entry_def)

text \<open>
  C5. With no mask supplied, a transport failure of the second of three entries is
  claimed to leave the first and the third bound and to raise nothing. It does not when
  the first device is named \<^verbatim>\<open>object_mask\<close>: binding the device under its name
  replaces the mask in the namespace of the registry, the handler of the transport error
  then finds a mask, and the construction raises \<^verbatim>\<open>ResourceConnectionError\<close>
  before the third entry is tried. The first and the third entry are reachable and the
  second is not.
\<close>

theorem device_named_object_mask_raises_without_mask:
  "instantiate bench (bench_entry ''GPIB0::1::INSTR'' None) = Inr []
   \<and> instantiate bench (bench_entry ''GPIB0::2::INSTR'' None) = Inl (VisaIOError ''VI_ERROR_TMO'')
   \<and> instantiate bench (bench_entry ''GPIB0::3::INSTR'' None) = Inr []
   \<and> fst (EnvironmentSetup bench
           (SetupDict [(''object_mask'', bench_entry ''GPIB0::1::INSTR'' None),
                       (''load'', bench_entry ''GPIB0::2::INSTR'' None),
                       (''meter'', bench_entry ''GPIB0::3::INSTR'' None)])
           False [] True)
       = Some (ResourceConnectionError (VisaIOError ''VI_ERROR_TMO''))
   \<and> handle (snd (EnvironmentSetup bench
           (SetupDict [(''object_mask'', bench_entry ''GPIB0::1::INSTR'' None),
                       (''load'', bench_entry ''GPIB0::2::INSTR'' None),
                       (''meter'', bench_entry ''GPIB0::3::INSTR'' None)])
           False [] True)) ''meter'' = None"
proof -
  have inst: "instantiate bench (bench_entry ''GPIB0::1::INSTR'' None) = Inr []"
    "instantiate bench (bench_entry ''GPIB0::2::INSTR'' None) = Inl (VisaIOError ''VI_ERROR_TMO'')"
    "instantiate bench (bench_entry ''GPIB0::3::INSTR'' None) = Inr []"
    by (simp_all add: bench_def bench_entry_def)
  have none: "cfg_init (bench_entry adr None) = None" for adr
    by (simp add: bench_entry_def)
  show ?thesis
    by (simp add: inst none EnvironmentSetup_def read_configuration_def check_mask_def
        connect_to_devices_def connect_entry_def connect_try_def say_def
        object_mask_truthy_def handle_def Let_def)
qed


subsection \<open>Initialization sequences\<close>

lemma init_loop_append:
  "init_loop w valid_cmds (pre @ post) device self =
     (case init_loop w valid_cmds pre device self of
        (None, inst1, self1) \<Rightarrow> init_loop w valid_cmds post inst1 self1
      | (Some e, inst1, self1) \<Rightarrow> (Some e, inst1, self1))"
proof (induction pre arbitrary: device self)
  case Nil
  show ?case by simp
next
  case (Cons step pre)
  obtain m kw where step: "step = (m, kw)" by (cases step)
  show ?case
  proof (cases "m \<in> set valid_cmds")
    case False
    with Cons step show ?thesis by simp
  next
    case True
    obtain r inst' where inv: "invoke w device m kw = (r, inst')"
      by (cases "invoke w device m kw")
    show ?thesis
    proof (cases r)
      case None
      with Cons step True inv show ?thesis by simp
    next
      case (Some error)
      with Cons step True inv show ?thesis by (cases error) simp_all
    qed
  qed
qed

lemma init_loop_all_steps_run:
  assumes "\<forall>(m, kw) \<in> set sequence. \<forall>d.
             fst (invoke w d m kw) = None \<or> (\<exists>msg. fst (invoke w d m kw) = Some (TypeError msg))"
  shows "fst (init_loop w valid_cmds sequence device self) = None
         \<and> calls (snd (snd (init_loop w valid_cmds sequence device self)))
             = calls self @ map (\<lambda>(m, kw). Invoke m kw)
                              (filter (\<lambda>(m, kw). m \<in> set valid_cmds) sequence)
         \<and> attrs (snd (snd (init_loop w valid_cmds sequence device self))) = attrs self"
  using assms
proof (induction sequence arbitrary: device self)
  case Nil
  show ?case by simp
next
  case (Cons step sequence)
  obtain m kw where step: "step = (m, kw)" by (cases step)
  from Cons.prems have rest: "\<forall>(m, kw) \<in> set sequence. \<forall>d.
             fst (invoke w d m kw) = None \<or> (\<exists>msg. fst (invoke w d m kw) = Some (TypeError msg))"
    by simp
  note IH = Cons.IH [OF rest]
  show ?case
  proof (cases "m \<in> set valid_cmds")
    case False
    with IH step show ?thesis by simp
  next
    case True
    obtain r inst' where inv: "invoke w device m kw = (r, inst')"
      by (cases "invoke w device m kw")
    from Cons.prems step have "fst (invoke w device m kw) = None
        \<or> (\<exists>msg. fst (invoke w device m kw) = Some (TypeError msg))"
      by simp
    with inv have "r = None \<or> (\<exists>msg. r = Some (TypeError msg))"
      by simp
    then show ?thesis
    proof
      assume "r = None"
      with IH step True inv show ?thesis by simp
    next
      assume "\<exists>msg. r = Some (TypeError msg)"
      then obtain msg where "r = Some (TypeError msg)" ..
      with IH step True inv show ?thesis by simp
    qed
  qed
qed

text \<open>
  C6. In an initialization sequence, let the steps before a step have run without an
  exception and let that step, a method of the device, raise \<^verbatim>\<open>TypeError\<close>.
  Then the error is caught and reported, and the sequence goes on with the remaining
  steps from there. If each remaining step returns or raises \<^verbatim>\<open>TypeError\<close>, the
  initialization raises nothing and every remaining step that names a method of the
  device has been invoked, in order; and the connection of that entry raises nothing, so
  the registry goes on with the entries after it.
\<close>

theorem init_step_type_error_skips_only_that_step:
  fixes w :: "('kw, 'inst) world"
  assumes callable: "get_callable_methods w device = Inr valid_cmds"
    and unshadowed: "attrs self ''_get_callable_methods'' = None"
    and before: "init_loop w valid_cmds pre device self = (None, inst1, self1)"
    and valid: "method_name \<in> set valid_cmds"
    and mismatch: "invoke w inst1 method_name method_kwargs = (Some (TypeError msg), inst2)"
  shows "initiaize_device w device (pre @ (method_name, method_kwargs) # post) self
           = init_loop w valid_cmds post inst2
               (self1\<lparr>calls := calls self1 @ [Invoke method_name method_kwargs],
                      stdout := stdout self1 @ [InitError method_name (TypeError msg)]\<rparr>)
         \<and> ((\<forall>(m, kw) \<in> set post. \<forall>d.
                fst (invoke w d m kw) = None \<or> (\<exists>msg'. fst (invoke w d m kw) = Some (TypeError msg')))
             \<longrightarrow>
               (case initiaize_device w device (pre @ (method_name, method_kwargs) # post) self of
                  (raised, inst', self') \<Rightarrow>
                    raised = None
                    \<and> calls self' = calls self1 @ Invoke method_name method_kwargs
                          # map (\<lambda>(m, kw). Invoke m kw)
                              (filter (\<lambda>(m, kw). m \<in> set valid_cmds) post))
               \<and> (instantiate w info = Inr device
                    \<and> cfg_init info = Some (pre @ (method_name, method_kwargs) # post)
                    \<and> attrs self ''initiaize_device'' = None
                    \<and> self = say verbose (Connected name)
                               (self0\<lparr>attrs := (attrs self0)(name \<mapsto> Device device),
                                      calls := calls self0 @ [Instantiate info]\<rparr>)
                  \<longrightarrow> fst (connect_entry w True verbose name info self0) = None
                      \<and> connect_loop w True verbose ((name, info) # items) self0
                          = connect_loop w True verbose items
                              (snd (connect_entry w True verbose name info self0))))"
proof -
  let ?seq = "pre @ (method_name, method_kwargs) # post"
  let ?self2 = "self1\<lparr>calls := calls self1 @ [Invoke method_name method_kwargs],
                       stdout := stdout self1 @ [InitError method_name (TypeError msg)]\<rparr>"
  have run: "initiaize_device w device ?seq self = init_loop w valid_cmds post inst2 ?self2"
    using callable unshadowed before valid mismatch
    by (simp add: initiaize_device_def init_loop_append)
  have rest: "fst (init_loop w valid_cmds post inst2 ?self2) = None
      \<and> calls (snd (snd (init_loop w valid_cmds post inst2 ?self2)))
           = calls ?self2 @ map (\<lambda>(m, kw). Invoke m kw)
                               (filter (\<lambda>(m, kw). m \<in> set valid_cmds) post)"
    if benign: "\<forall>(m, kw) \<in> set post. \<forall>d.
                fst (invoke w d m kw) = None \<or> (\<exists>msg'. fst (invoke w d m kw) = Some (TypeError msg'))"
    using init_loop_all_steps_run [OF benign, of valid_cmds inst2 ?self2] by simp
  have whole: "case initiaize_device w device ?seq self of
                 (raised, inst', self') \<Rightarrow>
                   raised = None
                   \<and> calls self' = calls self1 @ Invoke method_name method_kwargs
                         # map (\<lambda>(m, kw). Invoke m kw)
                             (filter (\<lambda>(m, kw). m \<in> set valid_cmds) post)"
    if benign: "\<forall>(m, kw) \<in> set post. \<forall>d.
                fst (invoke w d m kw) = None \<or> (\<exists>msg'. fst (invoke w d m kw) = Some (TypeError msg'))"
    using rest [OF benign] by (auto simp add: run split: prod.splits)
  have entry: "fst (connect_entry w True verbose name info self0) = None
                 \<and> connect_loop w True verbose ((name, info) # items) self0
                     = connect_loop w True verbose items
                         (snd (connect_entry w True verbose name info self0))"
    if benign: "\<forall>(m, kw) \<in> set post. \<forall>d.
                fst (invoke w d m kw) = None \<or> (\<exists>msg'. fst (invoke w d m kw) = Some (TypeError msg'))"
      and bound: "instantiate w info = Inr device
                    \<and> cfg_init info = Some ?seq
                    \<and> attrs self ''initiaize_device'' = None
                    \<and> self = say verbose (Connected name)
                               (self0\<lparr>attrs := (attrs self0)(name \<mapsto> Device device),
                                      calls := calls self0 @ [Instantiate info]\<rparr>)"
  proof -
    from bound have inst: "instantiate w info = Inr device"
      and seq: "cfg_init info = Some ?seq"
      and self: "self = say verbose (Connected name)
                          (self0\<lparr>attrs := (attrs self0)(name \<mapsto> Device device),
                                 calls := calls self0 @ [Instantiate info]\<rparr>)"
      and free: "attrs self ''initiaize_device'' = None"
      by blast+
    from whole [OF benign] obtain inst' self'
      where ok: "initiaize_device w device ?seq self = (None, inst', self')"
      by (auto split: prod.splits)
    have "connect_try w True verbose name info self0
            = (None, say verbose Initialzed (self'\<lparr>attrs := (attrs self')(name \<mapsto> Device inst')\<rparr>))"
      using free ok unfolding self
      by (auto simp add: connect_try_def inst seq Let_def split: if_splits)
    then have "fst (connect_entry w True verbose name info self0) = None"
      by (simp add: connect_entry_def)
    then show ?thesis
      by (cases "connect_entry w True verbose name info self0") simp
  qed
  show ?thesis
  proof (intro conjI impI)
    show "initiaize_device w device ?seq self = init_loop w valid_cmds post inst2 ?self2"
      by (rule run)
  next
    assume "\<forall>(m, kw) \<in> set post. \<forall>d.
              fst (invoke w d m kw) = None \<or> (\<exists>msg'. fst (invoke w d m kw) = Some (TypeError msg'))"
    then show "case initiaize_device w device ?seq self of
                 (raised, inst', self') \<Rightarrow>
                   raised = None
                   \<and> calls self' = calls self1 @ Invoke method_name method_kwargs
                         # map (\<lambda>(m, kw). Invoke m kw)
                             (filter (\<lambda>(m, kw). m \<in> set valid_cmds) post)"
      by (rule whole)
  next
    assume "\<forall>(m, kw) \<in> set post. \<forall>d.
              fst (invoke w d m kw) = None \<or> (\<exists>msg'. fst (invoke w d m kw) = Some (TypeError msg'))"
      and "instantiate w info = Inr device
             \<and> cfg_init info = Some ?seq
             \<and> attrs self ''initiaize_device'' = None
             \<and> self = say verbose (Connected name)
                        (self0\<lparr>attrs := (attrs self0)(name \<mapsto> Device device),
                               calls := calls self0 @ [Instantiate info]\<rparr>)"
    then show "fst (connect_entry w True verbose name info self0) = None"
      by (rule entry [THEN conjunct1])
  next
    assume "\<forall>(m, kw) \<in> set post. \<forall>d.
              fst (invoke w d m kw) = None \<or> (\<exists>msg'. fst (invoke w d m kw) = Some (TypeError msg'))"
      and "instantiate w info = Inr device
             \<and> cfg_init info = Some ?seq
             \<and> attrs self ''initiaize_device'' = None
             \<and> self = say verbose (Connected name)
                        (self0\<lparr>attrs := (attrs self0)(name \<mapsto> Device device),
                               calls := calls self0 @ [Instantiate info]\<rparr>)"
    then show "connect_loop w True verbose ((name, info) # items) self0
                 = connect_loop w True verbose items
                     (snd (connect_entry w True verbose name info self0))"
      by (rule entry [THEN conjunct2])
  qed
qed


lemma bench_callable: "get_callable_methods bench d = Inr [''set_voltage'', ''off'']"
  by (simp add: get_callable_methods_def bench_def)

theorem init_step_type_error_witness:
  "initiaize_device bench [] bench_sequence bench_bound
     = (None, [''off''],
        bench_bound
          \<lparr>calls := calls bench_bound
                      @ [Invoke ''set_voltage'' [(''volts'', 0)], Invoke ''off'' []],
           stdout := stdout bench_bound
                      @ [InitError ''set_voltage'' (TypeError ''unexpected keyword argument'')]\<rparr>)
   \<and> fst (connect_entry bench True True ''source_v_in''
            (bench_entry ''GPIB0::1::INSTR'' (Some bench_sequence))
            \<lparr>attrs = Map.empty, stdout = [], calls = []\<rparr>) = None"
  using init_step_type_error_skips_only_that_step
    [where w = bench and device = "[]" and valid_cmds = "[''set_voltage'', ''off'']"
       and self = bench_bound and pre = "[]" and ?inst1.0 = "[]" and ?self1.0 = bench_bound
       and method_name = "''set_voltage''" and method_kwargs = "[(''volts'', 0)]"
       and msg = "''unexpected keyword argument''" and ?inst2.0 = "[]"
       and post = "[(''off'', [])]"
       and info = "bench_entry ''GPIB0::1::INSTR'' (Some bench_sequence)"
       and verbose = True and name = "''source_v_in''"
       and ?self0.0 = "\<lparr>attrs = Map.empty, stdout = [], calls = []\<rparr>"]
  by (simp add: bench_callable bench_sequence_def bench_bound_def say_def)
     (simp add: bench_def bench_entry_def)



section \<open>Results about the logging utilities\<close>

subsection \<open>Transposed rows\<close>

text \<open>
  The rows that \<^verbatim>\<open>dump_array_data\<close> builds are as many as the longest sequence
  with a fill value and as many as the shortest without one.
\<close>

lemma length_zip_longest:
  "length (zip_longest v xss) = foldr max (map length xss) 0"
proof (induction v xss rule: zip_longest.induct)
  case (1 v xss)
  show ?case
  proof (cases "list_all (\<lambda>xs. xs = []) xss")
    case True
    then have "foldr max (map length xss) 0 = 0"
      by (induction xss) auto
    with True show ?thesis
      by (simp add: zip_longest.simps [of v xss])
  next
    case False
    have step: "foldr max (map length yss) 0 = Suc (foldr max (map length (map tl yss)) 0)"
      if "\<not> list_all (\<lambda>xs. xs = []) yss" for yss :: "'a list list"
      using that
    proof (induction yss)
      case Nil
      then show ?case by simp
    next
      case (Cons ys yss)
      show ?case
      proof (cases "list_all (\<lambda>xs. xs = []) yss")
        case True
        then have z: "foldr max (map length yss) 0 = 0" "foldr max (map length (map tl yss)) 0 = 0"
          by (induction yss) auto
        from True Cons.prems have "ys \<noteq> []" by auto
        then show ?thesis using z by (cases ys) auto
      next
        case False
        from Cons.IH [OF False] show ?thesis by (cases ys) auto
      qed
    qed
    from False 1 step [OF False] show ?thesis
      by (simp add: zip_longest.simps [of v xss])
  qed
qed

lemma length_zip_rows:
  "length (zip_rows xss) = (if xss = [] then 0 else Min (length ` set xss))"
proof (induction xss rule: zip_rows.induct)
  case (1 xss)
  show ?case
  proof (cases "xss = [] \<or> list_ex (\<lambda>xs. xs = []) xss")
    case True
    then have "xss \<noteq> [] \<longrightarrow> Min (length ` set xss) = 0"
      by (auto simp: list_ex_iff intro!: Min_eqI)
    with True show ?thesis
      by (auto simp add: zip_rows.simps [of xss])
  next
    case False
    then have ne: "xss \<noteq> []" and pos: "\<forall>xs \<in> set xss. xs \<noteq> []"
      by (auto simp: list_ex_iff)
    have "length ` set (map tl xss) = (\<lambda>n. n - 1) ` length ` set xss"
      by (auto simp: image_iff)
    moreover have "Min ((\<lambda>n. n - 1) ` length ` set xss) = Min (length ` set xss) - 1"
      using ne by (intro mono_Min_commute [symmetric]) (auto simp: mono_def)
    moreover have "0 < Min (length ` set xss)"
      using ne pos by (simp add: Min_gr_iff)
    ultimately show ?thesis
      using False 1 ne by (simp add: zip_rows.simps [of xss])
  qed
qed

text \<open>
  Whatever the rows are, they are written on one line: the text ends in the only newline
  it has, when no \<^verbatim>\<open>repr\<close> of an item has a newline.
\<close>

lemma count_lines_simps [simp]:
  "count_lines [] = 0"
  "count_lines (c # s) = (if c = CHR ''\<newline>'' then 1 else 0) + count_lines s"
  "count_lines (a @ b) = count_lines a + count_lines b"
  by (simp_all add: count_lines_def)

lemma count_lines_join:
  assumes "count_lines sep = 0" and "\<forall>p \<in> set parts. count_lines p = 0"
  shows "count_lines (join sep parts) = 0"
  using assms by (induction sep parts rule: join.induct) simp_all

lemma count_lines_str_tuple:
  assumes "\<forall>x \<in> set row. count_lines (repr x) = 0"
  shows "count_lines (str_tuple repr row) = 0"
proof -
  have "count_lines (join '', '' (map repr row)) = 0"
    using assms by (intro count_lines_join) simp_all
  then show ?thesis
    using assms by (auto simp add: str_tuple_def split: list.splits)
qed

lemma print_rows_one_line:
  assumes "\<forall>row \<in> set rows. \<forall>x \<in> set row. count_lines (repr x) = 0"
  shows "count_lines (print_rows repr rows) = 1"
proof -
  have "\<forall>p \<in> set (map (str_tuple repr) rows). count_lines p = 0"
    using assms by (simp add: count_lines_str_tuple)
  moreover have "count_lines '','' = 0"
    by simp
  ultimately have "count_lines (join '','' (map (str_tuple repr) rows)) = 0"
    by (intro count_lines_join)
  then show ?thesis
    by (simp add: print_rows_def)
qed

lemma zip_longest_example:
  "zip_longest (PStr '''') [[PInt 1, PInt 2, PInt 3], [PInt 4, PInt 5, PInt 6, PInt 7, PInt 8]]
     = [[PInt 1, PInt 4], [PInt 2, PInt 5], [PInt 3, PInt 6], [PStr '''', PInt 7], [PStr '''', PInt 8]]"
  by (simp add: zip_longest.simps)

lemma zip_rows_example:
  "zip_rows [[PInt 1, PInt 2, PInt 3], [PInt 4, PInt 5, PInt 6, PInt 7, PInt 8]]
     = [[PInt 1, PInt 4], [PInt 2, PInt 5], [PInt 3, PInt 6]]"
  by (simp add: zip_rows.simps)

text \<open>
  C4. With the fill value \<^verbatim>\<open>''\<close> and two sequences of lengths 3 and 5, the file is
  claimed to hold 5 rows. The five rows are built, but \<^verbatim>\<open>print(*rows, sep=',')\<close>
  writes them as five tuples on one line: the new file holds exactly one line. Without a
  fill value the three rows are written on one line as well.
\<close>

theorem dump_array_data_writes_one_line:
  "dump_array_data (py_repr fstr)
     \<lparr>path_parent = ''logs'', path_stem = ''run'', path_suffix = ''''\<rparr>
     [[PInt 1, PInt 2, PInt 3], [PInt 4, PInt 5, PInt 6, PInt 7, PInt 8]]
     True (Some (PStr '''')) Map.empty
   = [''logs/run.csv'' \<mapsto>
        ''(1, 4),(2, 5),(3, 6),('' @ [CHR 0x27, CHR 0x27] @ '', 7),(''
          @ [CHR 0x27, CHR 0x27] @ '', 8)\<newline>'']
   \<and> count_lines (''(1, 4),(2, 5),(3, 6),('' @ [CHR 0x27, CHR 0x27] @ '', 7),(''
          @ [CHR 0x27, CHR 0x27] @ '', 8)\<newline>'') = 1
   \<and> dump_array_data (py_repr fstr)
       \<lparr>path_parent = ''logs'', path_stem = ''run'', path_suffix = ''''\<rparr>
       [[PInt 1, PInt 2, PInt 3], [PInt 4, PInt 5, PInt 6, PInt 7, PInt 8]]
       True None Map.empty
     = [''logs/run.csv'' \<mapsto> ''(1, 4),(2, 5),(3, 6)\<newline>'']"
  by (simp add: dump_array_data_def zip_longest_example zip_rows_example print_rows_def
      str_tuple_def str_int_digits)

subsection \<open>Run directories\<close>

text \<open>
  C9. Let the run directory be the base directory joined with the test name, an
  underscore and the timestamp. If it exists, \<^verbatim>\<open>create_test_log\<close> raises
  \<^verbatim>\<open>FileExistsError\<close> and the file system is as it was. Whenever a call
  returns a directory, it is this run directory and it did not exist before the call.
\<close>

theorem create_test_log_refuses_existing_run_directory:
  assumes dir: "test_dir = base_dir @ ''/''
                   @ (case map_of test_info ''test_name'' of
                        Some v \<Rightarrow> py_str fstr v
                      | None \<Rightarrow> ''test_data'')
                   @ ''_'' @ file_t_stamp_of now1"
  shows "(test_dir \<in> dirs fs \<longrightarrow>
            create_test_log fstr json_dump now1 now2 base_dir images raw_data test_info fs
              = (Inl (FileExistsError test_dir), fs))
         \<and> (\<forall>made. fst (create_test_log fstr json_dump now1 now2 base_dir images raw_data
                            test_info fs) = Inr made
              \<longrightarrow> made = test_dir \<and> test_dir \<notin> dirs fs)"
proof -
  have exists: "mkdir test_dir fs = Inl (FileExistsError test_dir)" if "test_dir \<in> dirs fs"
    using that by (simp add: mkdir_def)
  have fresh: "test_dir \<notin> dirs fs" if "mkdir test_dir fs = Inr fs1" for fs1
    using that by (auto simp add: mkdir_def split: if_splits)
  have first: "create_test_log fstr json_dump now1 now2 base_dir images raw_data test_info fs
                 = (Inl (FileExistsError test_dir), fs)" if "test_dir \<in> dirs fs"
    using exists [OF that] unfolding dir by (simp add: create_test_log_def Let_def)
  have second: "made = test_dir \<and> test_dir \<notin> dirs fs"
    if "fst (create_test_log fstr json_dump now1 now2 base_dir images raw_data test_info fs)
          = Inr made" for made
  proof (cases "mkdir test_dir fs")
    case (Inl e)
    with that show ?thesis
      unfolding dir by (simp add: create_test_log_def Let_def)
  next
    case (Inr fs1)
    from that Inr have "made = test_dir"
      unfolding dir
      by (auto simp add: create_test_log_def Let_def split: sum.splits if_splits)
    with fresh [OF Inr] show ?thesis by simp
  qed
  show ?thesis
    using first second by blast
qed

theorem create_test_log_refuses_witness:
  "create_test_log (\<lambda>x::real. ''0.5'') (\<lambda>info. ''{}'')
     may_21 may_21
     ''example_dir'' True False [(''test_name'', PStr ''Transients'')]
     \<lparr>dirs = {''example_dir'', ''example_dir/Transients_20210521095931''}, files = Map.empty\<rparr>
   = (Inl (FileExistsError ''example_dir/Transients_20210521095931''),
      \<lparr>dirs = {''example_dir'', ''example_dir/Transients_20210521095931''}, files = Map.empty\<rparr>)"
  using create_test_log_refuses_existing_run_directory
    [where test_dir = "''example_dir/Transients_20210521095931''" and base_dir = "''example_dir''"
       and test_info = "[(''test_name'', PStr ''Transients'')]" and fstr = "\<lambda>x::real. ''0.5''"
       and ?now1.0 = may_21 and ?now2.0 = may_21
       and fs = "\<lparr>dirs = {''example_dir'', ''example_dir/Transients_20210521095931''}, files = Map.empty\<rparr>"
       and json_dump = "\<lambda>info. ''{}''" and images = True and raw_data = False]
  by (simp add: stamp_example)

end
